theory Spec2Isabelle
  imports Main "HOL-Library.Word"
begin

section \<open>Solidity value types\<close>

text \<open>
  The contract \<open>SilentKingdoms\<close> (Solidity, pragma 0.8.24) keeps one \<open>PlayerData\<close> per
  address. An \<open>address\<close> is a 160-bit value and \<open>uint32\<close> a 32-bit unsigned integer;
  both are machine words here, so that arithmetic on \<open>uint32\<close> wraps modulo \<open>2 ^ 32\<close> and
  \<open>\<le>\<close> is the unsigned order.
\<close>

type_synonym address = "160 word"
type_synonym uint32 = "32 word"

text \<open>
  The two \<open>require\<close> statements of the contract revert with the reason strings
  \<open>Player already registered\<close> and \<open>Player not registered\<close>; the specification calls them
  \<open>AlreadyRegistered\<close> and \<open>NotRegistered\<close>. \<open>InvalidProof\<close> is the revert of
  \<open>FHE.fromExternal\<close> on a ciphertext and proof that do not verify.
\<close>

datatype error = AlreadyRegistered | NotRegistered | InvalidProof

datatype event = PlayerJoined address | BuildingAttempted address

section \<open>The encrypted arithmetic capability\<close>

text \<open>
  The library \<open>@fhevm/solidity/lib/FHE.sol\<close> is imported by the contract and is not part of
  the repository. A ciphertext handle is modelled by the computation that produced it, and
  decryption by the evaluation of that computation on the plaintexts; equal computations on
  equal operands give the same handle. An input ciphertext made by a client carries a nonce
  (two encryptions of one value are different ciphertexts) and the value it hides.
\<close>

datatype externalEuint32 = ExternalEuint32 (ext_nonce: nat) (ext_clear: uint32)

text \<open>
  The \<open>bytes calldata inputProof\<close> of \<open>constructBuilding\<close>: an opaque blob proving that a
  ciphertext was formed for one caller and one contract instance. It is modelled by what it
  attests.
\<close>

datatype inputProof =
  InputProof (attested: externalEuint32) (proof_user: address) (proof_contract: address)

datatype euint32 =
    Uninitialized
  | TrivialEncrypt uint32
  | VerifiedInput externalEuint32
  | SubOf euint32 euint32
  | SelectOf ebool euint32 euint32
and ebool =
    EqOf euint32 euint32
  | GeOf euint32 euint32
  | AndOf ebool ebool
  | OrOf ebool ebool

text \<open>
  Decryption, which the contract never performs: the tests decrypt with
  \<open>fhevm.userDecryptEuint\<close>. Subtraction of encrypted 32-bit integers wraps. The handle
  of a storage slot never written is \<open>Uninitialized\<close> and stands for 0.
\<close>

fun decrypt32 :: "euint32 \<Rightarrow> uint32" and decryptBool :: "ebool \<Rightarrow> bool" where
  "decrypt32 Uninitialized = 0"
| "decrypt32 (TrivialEncrypt v) = v"
| "decrypt32 (VerifiedInput x) = ext_clear x"
| "decrypt32 (SubOf a b) = decrypt32 a - decrypt32 b"
| "decrypt32 (SelectOf c a b) = (if decryptBool c then decrypt32 a else decrypt32 b)"
| "decryptBool (EqOf a b) = (decrypt32 a = decrypt32 b)"
| "decryptBool (GeOf a b) = (decrypt32 b \<le> decrypt32 a)"
| "decryptBool (AndOf p q) = (decryptBool p \<and> decryptBool q)"
| "decryptBool (OrOf p q) = (decryptBool p \<or> decryptBool q)"

text \<open>Modelled from the spec: \<open>FHE.asEuint32\<close>, the constant creation of the capability.\<close>

definition FHE_asEuint32 :: "uint32 \<Rightarrow> euint32" where
  "FHE_asEuint32 v = TrivialEncrypt v"

text \<open>Modelled from the spec: \<open>FHE.eq\<close>, equality of two encrypted integers.\<close>

definition FHE_eq :: "euint32 \<Rightarrow> euint32 \<Rightarrow> ebool" where
  "FHE_eq a b = EqOf a b"

text \<open>Modelled from the spec: \<open>FHE.ge\<close>, greater-or-equal of two encrypted integers.\<close>

definition FHE_ge :: "euint32 \<Rightarrow> euint32 \<Rightarrow> ebool" where
  "FHE_ge a b = GeOf a b"

text \<open>Modelled from the spec: \<open>FHE.sub\<close>, subtraction of two encrypted integers.\<close>

definition FHE_sub :: "euint32 \<Rightarrow> euint32 \<Rightarrow> euint32" where
  "FHE_sub a b = SubOf a b"

text \<open>Modelled from the spec: \<open>FHE.and\<close> and \<open>FHE.or\<close> on encrypted booleans.\<close>

definition FHE_and :: "ebool \<Rightarrow> ebool \<Rightarrow> ebool" where
  "FHE_and p q = AndOf p q"

definition FHE_or :: "ebool \<Rightarrow> ebool \<Rightarrow> ebool" where
  "FHE_or p q = OrOf p q"

text \<open>Modelled from the spec: \<open>FHE.select\<close>, the oblivious ternary operator.\<close>

definition FHE_select :: "ebool \<Rightarrow> euint32 \<Rightarrow> euint32 \<Rightarrow> euint32" where
  "FHE_select c a b = SelectOf c a b"

text \<open>
  Modelled from the spec: \<open>FHE.fromExternal\<close>, which validates the proof against the
  ciphertext for the calling identity and this contract instance, and fails with
  \<open>InvalidProof\<close> otherwise.
\<close>

definition FHE_fromExternal ::
  "externalEuint32 \<Rightarrow> inputProof \<Rightarrow> address \<Rightarrow> address \<Rightarrow> error + euint32" where
  "FHE_fromExternal x inputProof user this_contract =
     (if attested inputProof = x \<and> proof_user inputProof = user \<and>
         proof_contract inputProof = this_contract
      then Inr (VerifiedInput x) else Inl InvalidProof)"

text \<open>
  Modelled from the spec: the client side of the capability, which the tests call as
  \<open>fhevm.createEncryptedInput(contract, user).add32(v).encrypt()\<close>: a ciphertext of \<open>v\<close>
  and the proof that it was formed for that contract instance and that caller.
\<close>

definition createEncryptedInput ::
  "address \<Rightarrow> address \<Rightarrow> nat \<Rightarrow> uint32 \<Rightarrow> externalEuint32 \<times> inputProof" where
  "createEncryptedInput this_contract user nonce v =
     (ExternalEuint32 nonce v, InputProof (ExternalEuint32 nonce v) user this_contract)"

section \<open>The contract's storage\<close>

record PlayerData =
  gold :: euint32
  lastBuilding :: euint32
  registered :: bool

text \<open>
  \<open>_players\<close> is a Solidity mapping: every address has a value, which is all zeroes until
  it is written. The access-control list of the capability (which identity may decrypt
  which ciphertext) and the log of emitted events are part of the state a call changes;
  \<open>contractAddress\<close> is \<open>address(this)\<close>.
\<close>

record contract =
  players :: "address \<Rightarrow> PlayerData"
  contractAddress :: address
  acl :: "(euint32 \<times> address) set"
  events :: "event list"

definition emptyPlayer :: PlayerData where
  "emptyPlayer = \<lparr>gold = Uninitialized, lastBuilding = Uninitialized, registered = False\<rparr>"

definition deploy :: "address \<Rightarrow> contract" where
  "deploy a = \<lparr>players = (\<lambda>_. emptyPlayer), contractAddress = a, acl = {}, events = []\<rparr>"

text \<open>Modelled from the spec: \<open>FHE.allow\<close> grants an identity decryption rights on a ciphertext.\<close>

definition FHE_allow :: "euint32 \<Rightarrow> address \<Rightarrow> contract \<Rightarrow> contract" where
  "FHE_allow h a s = s\<lparr>acl := insert (h, a) (acl s)\<rparr>"

text \<open>Modelled from the spec: \<open>FHE.allowThis\<close> grants them to the contract itself.\<close>

definition FHE_allowThis :: "euint32 \<Rightarrow> contract \<Rightarrow> contract" where
  "FHE_allowThis h s = FHE_allow h (contractAddress s) s"

section \<open>The contract\<close>

definition STARTING_GOLD :: uint32 where "STARTING_GOLD = 1000"
definition BARRACKS_COST :: uint32 where "BARRACKS_COST = 100"
definition FARM_COST :: uint32 where "FARM_COST = 200"
definition FACTORY_COST :: uint32 where "FACTORY_COST = 300"
definition WALL_COST :: uint32 where "WALL_COST = 400"

text \<open>
  \<open>_storePlayerCiphertexts(player, goldCipher, buildingCipher, playerAddress)\<close>. The storage
  reference \<open>player\<close> is the key of the slot it points to. Each grant reads the field back
  from storage, as the source does.
\<close>

definition storePlayerCiphertexts ::
  "address \<Rightarrow> euint32 \<Rightarrow> euint32 \<Rightarrow> address \<Rightarrow> contract \<Rightarrow> contract" where
  "storePlayerCiphertexts player goldCipher buildingCipher playerAddress s =
     (let s1 = s\<lparr>players := (players s)(player := (players s player)\<lparr>gold := goldCipher\<rparr>)\<rparr>;
          s2 = s1\<lparr>players :=
                 (players s1)(player := (players s1 player)\<lparr>lastBuilding := buildingCipher\<rparr>)\<rparr>;
          s3 = FHE_allowThis (gold (players s2 player)) s2;
          s4 = FHE_allow (gold (players s3 player)) playerAddress s3;
          s5 = FHE_allowThis (lastBuilding (players s4 player)) s4
      in FHE_allow (lastBuilding (players s5 player)) playerAddress s5)"

text \<open>\<open>_resolveBuildingCost(buildingId)\<close>: returns \<open>(selectedCost, validPair)\<close>.\<close>

definition resolveBuildingCost :: "euint32 \<Rightarrow> euint32 \<times> ebool" where
  "resolveBuildingCost buildingId =
     (let isBarracks = FHE_eq buildingId (FHE_asEuint32 1);
          isFarm = FHE_eq buildingId (FHE_asEuint32 2);
          isFactory = FHE_eq buildingId (FHE_asEuint32 3);
          isWall = FHE_eq buildingId (FHE_asEuint32 4);
          selectedCost0 = FHE_asEuint32 0;
          selectedCost1 = FHE_select isBarracks (FHE_asEuint32 BARRACKS_COST) selectedCost0;
          selectedCost2 = FHE_select isFarm (FHE_asEuint32 FARM_COST) selectedCost1;
          selectedCost3 = FHE_select isFactory (FHE_asEuint32 FACTORY_COST) selectedCost2;
          selectedCost4 = FHE_select isWall (FHE_asEuint32 WALL_COST) selectedCost3;
          validPair = FHE_or (FHE_or isBarracks isFarm) (FHE_or isFactory isWall)
      in (selectedCost4, validPair))"

text \<open>\<open>joinGame()\<close>, called by \<open>msg_sender\<close>.\<close>

definition joinGame :: "address \<Rightarrow> contract \<Rightarrow> error + contract" where
  "joinGame msg_sender s =
     (if registered (players s msg_sender) then Inl AlreadyRegistered
      else
        let startingGold = FHE_asEuint32 STARTING_GOLD;
            initialBuilding = FHE_asEuint32 0;
            s1 = s\<lparr>players :=
                   (players s)(msg_sender := (players s msg_sender)\<lparr>registered := True\<rparr>)\<rparr>;
            s2 = storePlayerCiphertexts msg_sender startingGold initialBuilding msg_sender s1
        in Inr (s2\<lparr>events := events s2 @ [PlayerJoined msg_sender]\<rparr>))"

text \<open>\<open>constructBuilding(encryptedBuildingId, inputProof)\<close>, called by \<open>msg_sender\<close>.\<close>

definition constructBuilding ::
  "address \<Rightarrow> externalEuint32 \<Rightarrow> inputProof \<Rightarrow> contract \<Rightarrow> error + contract" where
  "constructBuilding msg_sender encryptedBuildingId inputProof s =
     (if \<not> registered (players s msg_sender) then Inl NotRegistered
      else
        let currentGold = gold (players s msg_sender);
            currentBuilding = lastBuilding (players s msg_sender)
        in case FHE_fromExternal encryptedBuildingId inputProof msg_sender (contractAddress s) of
             Inl e \<Rightarrow> Inl e
           | Inr buildingId \<Rightarrow>
               let (buildingCost, isKnownBuilding) = resolveBuildingCost buildingId;
                   canAfford = FHE_ge currentGold buildingCost;
                   shouldApply = FHE_and isKnownBuilding canAfford;
                   zeroValue = FHE_asEuint32 0;
                   appliedCost = FHE_select shouldApply buildingCost zeroValue;
                   updatedGold = FHE_sub currentGold appliedCost;
                   updatedBuilding = FHE_select shouldApply buildingId currentBuilding;
                   s1 = storePlayerCiphertexts msg_sender updatedGold updatedBuilding msg_sender s
               in Inr (s1\<lparr>events := events s1 @ [BuildingAttempted msg_sender]\<rparr>))"

definition getPlayerGold :: "address \<Rightarrow> contract \<Rightarrow> error + euint32" where
  "getPlayerGold playerAddress s =
     (if \<not> registered (players s playerAddress) then Inl NotRegistered
      else Inr (gold (players s playerAddress)))"

definition getPlayerLastBuilding :: "address \<Rightarrow> contract \<Rightarrow> error + euint32" where
  "getPlayerLastBuilding playerAddress s =
     (if \<not> registered (players s playerAddress) then Inl NotRegistered
      else Inr (lastBuilding (players s playerAddress)))"

definition getPlayerState :: "address \<Rightarrow> contract \<Rightarrow> error + euint32 \<times> euint32 \<times> bool" where
  "getPlayerState playerAddress s =
     (if \<not> registered (players s playerAddress) then Inl NotRegistered
      else Inr (gold (players s playerAddress), lastBuilding (players s playerAddress),
                registered (players s playerAddress)))"

definition isPlayerRegistered :: "address \<Rightarrow> contract \<Rightarrow> bool" where
  "isPlayerRegistered playerAddress s = registered (players s playerAddress)"

text \<open>\<open>getBuildingPrices()\<close> is \<open>pure\<close>: it has no access to the state.\<close>

definition getBuildingPrices :: "uint32 list" where
  "getBuildingPrices = [BARRACKS_COST, FARM_COST, FACTORY_COST, WALL_COST]"

section \<open>Transactions\<close>

text \<open>
  A call that reverts leaves the whole state as it was before the call: the host
  environment runs every call atomically.
\<close>

definition transact :: "(contract \<Rightarrow> error + contract) \<Rightarrow> contract \<Rightarrow> contract \<times> error option" where
  "transact f s = (case f s of Inl e \<Rightarrow> (s, Some e) | Inr s' \<Rightarrow> (s', None))"

datatype call = JoinGame address | ConstructBuilding address externalEuint32 inputProof

fun step :: "call \<Rightarrow> contract \<Rightarrow> contract \<times> error option" where
  "step (JoinGame a) s = transact (joinGame a) s"
| "step (ConstructBuilding a x inputProof) s = transact (constructBuilding a x inputProof) s"

text \<open>The state after a sequence of calls, run in order, failed calls included.\<close>

fun run :: "call list \<Rightarrow> contract \<Rightarrow> contract" where
  "run [] s = s"
| "run (c # cs) s = run cs (fst (step c s))"

text \<open>
  The building ids of \<open>BUILDINGS\<close> in \<open>config/contracts.ts\<close> (Barracks, Farm, Factory,
  Wall). The front end pairs the \<open>i\<close>-th building with the \<open>i\<close>-th price of
  \<open>getBuildingPrices\<close> (\<open>buildingOptions\<close>); \<open>catalog\<close> is that pairing of id and cost.
\<close>

definition BUILDING_IDS :: "uint32 list" where
  "BUILDING_IDS = [1, 2, 3, 4]"

definition catalog :: "(uint32 \<times> uint32) list" where
  "catalog = zip BUILDING_IDS getBuildingPrices"

text \<open>
  The fixtures of \<open>test/SilentKingdoms.ts\<close>: the signers \<open>alice\<close> and \<open>bob\<close>, the address of
  the deployed contract, and a \<open>constructBuilding\<close> call made the way the tests make it, from
  a fresh encrypted input for the calling signer.
\<close>

definition alice :: address where "alice = 1"
definition bob :: address where "bob = 2"
definition gameAddress :: address where "gameAddress = 4096"

definition buildCall :: "address \<Rightarrow> uint32 \<Rightarrow> call" where
  "buildCall user v =
     (case createEncryptedInput gameAddress user 0 v of
        (handle, inputProof) \<Rightarrow> ConstructBuilding user handle inputProof)"

section \<open>Auxiliary facts\<close>

text \<open>
  What the private functions compute on the plaintexts, the state a successful call
  returns, and what one call and a sequence of calls keep.
\<close>

lemmas FHE_defs = FHE_asEuint32_def FHE_eq_def FHE_ge_def FHE_sub_def FHE_and_def FHE_or_def
  FHE_select_def

lemmas cost_defs = BARRACKS_COST_def FARM_COST_def FACTORY_COST_def WALL_COST_def

lemma catalog_eq: "catalog = [(1, 100), (2, 200), (3, 300), (4, 400)]"
  by (simp add: catalog_def BUILDING_IDS_def getBuildingPrices_def cost_defs)

lemma decrypt_resolve_cost:
  "decrypt32 (fst (resolveBuildingCost b)) =
     (if decrypt32 b = 4 then 400 else if decrypt32 b = 3 then 300
      else if decrypt32 b = 2 then 200 else if decrypt32 b = 1 then 100 else 0)"
  by (simp add: resolveBuildingCost_def FHE_defs cost_defs Let_def)

lemma decrypt_resolve_known:
  "decryptBool (snd (resolveBuildingCost b)) = (decrypt32 b \<in> {1, 2, 3, 4})"
  by (auto simp add: resolveBuildingCost_def FHE_defs Let_def)

lemma store_players:
  "players (storePlayerCiphertexts a g b a' s) =
     (players s)(a := (players s a)\<lparr>gold := g, lastBuilding := b\<rparr>)"
  by (simp add: storePlayerCiphertexts_def FHE_allow_def FHE_allowThis_def Let_def)

lemma store_contractAddress:
  "contractAddress (storePlayerCiphertexts a g b a' s) = contractAddress s"
  by (simp add: storePlayerCiphertexts_def FHE_allow_def FHE_allowThis_def Let_def)

lemma store_acl:
  "acl (storePlayerCiphertexts a g b a' s) =
     acl s \<union> {(g, contractAddress s), (g, a'), (b, contractAddress s), (b, a')}"
  by (auto simp add: storePlayerCiphertexts_def FHE_allow_def FHE_allowThis_def Let_def)

lemma store_events:
  "events (storePlayerCiphertexts a g b a' s) = events s"
  by (simp add: storePlayerCiphertexts_def FHE_allow_def FHE_allowThis_def Let_def)

lemma constructBuilding_Inr:
  assumes "registered (players s p)"
    and "FHE_fromExternal x pr p (contractAddress s) = Inr bid"
  shows "constructBuilding p x pr s =
     Inr ((storePlayerCiphertexts p
            (FHE_sub (gold (players s p))
               (FHE_select
                  (FHE_and (snd (resolveBuildingCost bid))
                     (FHE_ge (gold (players s p)) (fst (resolveBuildingCost bid))))
                  (fst (resolveBuildingCost bid)) (FHE_asEuint32 0)))
            (FHE_select
               (FHE_and (snd (resolveBuildingCost bid))
                  (FHE_ge (gold (players s p)) (fst (resolveBuildingCost bid))))
               bid (lastBuilding (players s p)))
            p s)\<lparr>events := events s @ [BuildingAttempted p]\<rparr>)"
  using assms
  by (simp add: constructBuilding_def Let_def split_beta store_events)

lemma constructBuilding_cases:
  "constructBuilding p x pr s = Inl NotRegistered \<and> \<not> registered (players s p) \<or>
   constructBuilding p x pr s = Inl InvalidProof \<and> registered (players s p) \<and>
     FHE_fromExternal x pr p (contractAddress s) = Inl InvalidProof \<or>
   registered (players s p) \<and> (\<exists>bid. FHE_fromExternal x pr p (contractAddress s) = Inr bid)"
  by (auto simp add: constructBuilding_def FHE_fromExternal_def)

lemma constructBuilding_effect:
  assumes "registered (players s p)"
    and "FHE_fromExternal x pr p (contractAddress s) = Inr bid"
  shows "\<exists>s'. constructBuilding p x pr s = Inr s' \<and>
     decrypt32 (gold (players s' p)) =
       (if decryptBool (snd (resolveBuildingCost bid)) \<and>
           decrypt32 (fst (resolveBuildingCost bid)) \<le> decrypt32 (gold (players s p))
        then decrypt32 (gold (players s p)) - decrypt32 (fst (resolveBuildingCost bid))
        else decrypt32 (gold (players s p))) \<and>
     decrypt32 (lastBuilding (players s' p)) =
       (if decryptBool (snd (resolveBuildingCost bid)) \<and>
           decrypt32 (fst (resolveBuildingCost bid)) \<le> decrypt32 (gold (players s p))
        then decrypt32 bid
        else decrypt32 (lastBuilding (players s p))) \<and>
     registered (players s' p) \<and>
     (\<forall>q. q \<noteq> p \<longrightarrow> players s' q = players s q)"
  using assms
  by (simp add: constructBuilding_Inr store_players FHE_defs)

lemma catalog_cost:
  "(k, c) \<in> set catalog \<Longrightarrow>
     k \<in> {1, 2, 3, 4} \<and>
     (if k = 4 then 400 else if k = 3 then 300 else if k = 2 then 200
      else if k = 1 then 100 else 0) = c"
  by (auto simp add: catalog_eq)

lemma joinGame_Inr:
  assumes "\<not> registered (players s p)"
  shows "joinGame p s =
     Inr ((storePlayerCiphertexts p (FHE_asEuint32 STARTING_GOLD) (FHE_asEuint32 0) p
            (s\<lparr>players := (players s)(p := (players s p)\<lparr>registered := True\<rparr>)\<rparr>))
          \<lparr>events := events s @ [PlayerJoined p]\<rparr>)"
  using assms by (simp add: joinGame_def Let_def store_events)

lemma joinGame_Inl:
  "registered (players s p) \<Longrightarrow> joinGame p s = Inl AlreadyRegistered"
  by (simp add: joinGame_def)

lemma joinGame_InrD:
  "joinGame p s = Inr s' \<Longrightarrow> \<not> registered (players s p)"
  by (auto simp add: joinGame_def split: if_splits)

lemma step_JoinGame_players:
  "players (fst (step (JoinGame a) s)) q =
     (if a = q \<and> \<not> registered (players s q)
      then \<lparr>gold = FHE_asEuint32 STARTING_GOLD, lastBuilding = FHE_asEuint32 0,
            registered = True\<rparr>
      else players s q)"
  by (cases "registered (players s a)")
     (auto simp add: transact_def joinGame_Inl joinGame_Inr store_players)

lemma step_Construct_other:
  "a \<noteq> q \<Longrightarrow> players (fst (step (ConstructBuilding a x pr) s)) q = players s q"
  using constructBuilding_cases [of a x pr s]
  by (auto simp add: transact_def constructBuilding_Inr store_players)

lemma step_Construct_registered:
  "registered (players (fst (step (ConstructBuilding a x pr) s)) q) = registered (players s q)"
  using constructBuilding_cases [of a x pr s]
  by (auto simp add: transact_def constructBuilding_Inr store_players split: if_splits)

lemma step_Construct_gold_le:
  "decrypt32 (gold (players (fst (step (ConstructBuilding a x pr) s)) q))
     \<le> decrypt32 (gold (players s q))"
  using constructBuilding_cases [of a x pr s]
  by (auto simp add: transact_def constructBuilding_Inr store_players FHE_defs word_sub_le)

lemma step_registered:
  "registered (players s p) \<Longrightarrow> registered (players (fst (step c s)) p)"
  by (cases c) (simp_all add: step_JoinGame_players step_Construct_registered del: step.simps)

lemma step_gold_le:
  "registered (players s p) \<or> c \<noteq> JoinGame p \<Longrightarrow>
     decrypt32 (gold (players (fst (step c s)) p)) \<le> decrypt32 (gold (players s p))"
  by (cases c) (auto simp add: step_JoinGame_players step_Construct_gold_le simp del: step.simps)

lemma run_registered:
  "registered (players s p) \<Longrightarrow> registered (players (run cs s) p)"
  by (induction cs arbitrary: s) (simp_all add: step_registered del: step.simps)

lemma run_gold_le:
  "registered (players s p) \<or> JoinGame p \<notin> set cs \<Longrightarrow>
     decrypt32 (gold (players (run cs s) p)) \<le> decrypt32 (gold (players s p))"
proof (induction cs arbitrary: s)
  case Nil
  then show ?case by simp
next
  case (Cons c cs)
  from Cons.prems have one: "registered (players s p) \<or> c \<noteq> JoinGame p" by auto
  from Cons.prems have "registered (players (fst (step c s)) p) \<or> JoinGame p \<notin> set cs"
    using step_registered [of s p c] by auto
  then have "decrypt32 (gold (players (run cs (fst (step c s))) p))
      \<le> decrypt32 (gold (players (fst (step c s)) p))"
    by (rule Cons.IH)
  also have "\<dots> \<le> decrypt32 (gold (players s p))"
    using one by (rule step_gold_le)
  finally show ?case by simp
qed

lemma run_never_joined:
  "JoinGame p \<notin> set cs \<Longrightarrow> \<not> registered (players s p) \<Longrightarrow>
     players (run cs s) p = players s p"
proof (induction cs arbitrary: s)
  case Nil
  then show ?case by simp
next
  case (Cons c cs)
  then have ne: "c \<noteq> JoinGame p" and rest: "JoinGame p \<notin> set cs" by auto
  have same: "players (fst (step c s)) p = players s p"
  proof (cases c)
    case (JoinGame a)
    with ne show ?thesis
      by (simp add: step_JoinGame_players del: step.simps)
  next
    case (ConstructBuilding a x pr)
    show ?thesis
    proof (cases "a = p")
      case True
      with Cons.prems(2) ConstructBuilding show ?thesis
        by (simp add: transact_def constructBuilding_def)
    next
      case False
      with ConstructBuilding show ?thesis by (simp add: step_Construct_other del: step.simps)
    qed
  qed
  with Cons.prems(2) have "\<not> registered (players (fst (step c s)) p)" by simp
  from Cons.IH [OF rest this] same show ?case by simp
qed

lemma step_contractAddress: "contractAddress (fst (step c s)) = contractAddress s"
proof (cases c)
  case (JoinGame a)
  then show ?thesis
    by (cases "registered (players s a)")
       (simp_all add: transact_def joinGame_Inl joinGame_Inr store_contractAddress)
next
  case (ConstructBuilding a x pr)
  with constructBuilding_cases [of a x pr s] show ?thesis
    by (auto simp add: transact_def constructBuilding_Inr store_contractAddress)
qed

lemma run_contractAddress: "contractAddress (run cs s) = contractAddress s"
  by (induction cs arbitrary: s) (simp_all add: step_contractAddress del: step.simps)

lemmas fixture_defs = alice_def bob_def gameAddress_def buildCall_def createEncryptedInput_def

lemmas eval_defs = deploy_def emptyPlayer_def joinGame_def constructBuilding_def transact_def
  storePlayerCiphertexts_def FHE_allow_def FHE_allowThis_def FHE_fromExternal_def
  resolveBuildingCost_def FHE_defs cost_defs STARTING_GOLD_def Let_def

section \<open>The price list\<close>

text \<open>
  C9: \<open>getBuildingPrices\<close> takes no state, cannot fail, and is the list of the four
  plaintext costs 100, 200, 300, 400, in the order Barracks, Farm, Factory, Wall.
\<close>

theorem getBuildingPrices_catalog:
  "getBuildingPrices = [100, 200, 300, 400] \<and>
   getBuildingPrices = [BARRACKS_COST, FARM_COST, FACTORY_COST, WALL_COST] \<and>
   catalog = [(1, 100), (2, 200), (3, 300), (4, 400)]"
  by (simp add: getBuildingPrices_def catalog_def BUILDING_IDS_def BARRACKS_COST_def
      FARM_COST_def FACTORY_COST_def WALL_COST_def)

section \<open>Registration\<close>

text \<open>
  C6: \<open>joinGame\<close> by an identity that is not registered succeeds, and right after it the
  player's gold decrypts to 1000, \<open>lastBuilding\<close> decrypts to 0 and the plaintext
  \<open>registered\<close> flag is true, also as \<open>getPlayerState\<close> and \<open>isPlayerRegistered\<close> return it.
\<close>

theorem joinGame_starting_allocation:
  assumes "\<not> registered (players s p)"
  shows "\<exists>s'. joinGame p s = Inr s' \<and>
     decrypt32 (gold (players s' p)) = 1000 \<and>
     decrypt32 (lastBuilding (players s' p)) = 0 \<and>
     registered (players s' p) \<and>
     isPlayerRegistered p s' \<and>
     getPlayerState p s' = Inr (gold (players s' p), lastBuilding (players s' p), True)"
  using assms
  by (simp add: joinGame_Inr store_players FHE_asEuint32_def STARTING_GOLD_def
      isPlayerRegistered_def getPlayerState_def)

theorem joinGame_starting_allocation_witness:
  "\<not> registered (players (deploy gameAddress) alice) \<and>
   (\<exists>s'. joinGame alice (deploy gameAddress) = Inr s' \<and>
      decrypt32 (gold (players s' alice)) = 1000 \<and>
      decrypt32 (lastBuilding (players s' alice)) = 0 \<and>
      registered (players s' alice))"
proof -
  have n: "\<not> registered (players (deploy gameAddress) alice)"
    by (simp add: deploy_def emptyPlayer_def)
  from joinGame_starting_allocation [OF n] n show ?thesis by auto
qed

text \<open>
  C5: after a successful \<open>joinGame\<close> of \<open>p\<close>, a second \<open>joinGame\<close> of \<open>p\<close> fails with
  \<open>AlreadyRegistered\<close> and the state after the failed call is the state before it, whether
  the second call comes at once or after any further calls \<open>cs\<close>.
\<close>

theorem second_join_rejected:
  assumes "joinGame p s = Inr s1"
  shows "joinGame p s1 = Inl AlreadyRegistered \<and>
         step (JoinGame p) s1 = (s1, Some AlreadyRegistered) \<and>
         joinGame p (run cs s1) = Inl AlreadyRegistered \<and>
         step (JoinGame p) (run cs s1) = (run cs s1, Some AlreadyRegistered)"
proof -
  from assms have "\<not> registered (players s p)" by (rule joinGame_InrD)
  with assms have r: "registered (players s1 p)"
    by (auto simp add: joinGame_Inr store_players)
  then have "registered (players (run cs s1) p)" by (rule run_registered)
  with r show ?thesis by (simp add: joinGame_Inl transact_def)
qed

theorem second_join_rejected_witness:
  "\<exists>s1. joinGame alice (deploy gameAddress) = Inr s1 \<and>
      step (JoinGame alice) s1 = (s1, Some AlreadyRegistered) \<and>
      step (JoinGame alice) (run [buildCall alice 2] s1)
        = (run [buildCall alice 2] s1, Some AlreadyRegistered)"
proof -
  have "\<not> registered (players (deploy gameAddress) alice)"
    by (simp add: deploy_def emptyPlayer_def)
  then obtain s1 where j: "joinGame alice (deploy gameAddress) = Inr s1"
    by (auto simp add: joinGame_Inr)
  from second_join_rejected [OF j, of "[buildCall alice 2]"] j show ?thesis by blast
qed

text \<open>
  C7: in a state reached from deployment by calls none of which is \<open>p\<close>'s \<open>joinGame\<close>,
  \<open>constructBuilding\<close> by \<open>p\<close> fails with \<open>NotRegistered\<close> whatever its arguments and leaves
  the state as it was, the three reads of \<open>p\<close> fail with \<open>NotRegistered\<close>,
  \<open>isPlayerRegistered\<close> returns false, and \<open>p\<close>'s storage slot is still the empty record.
\<close>

theorem never_joined_gated:
  assumes "JoinGame p \<notin> set cs" and "s = run cs (deploy a)"
  shows "constructBuilding p x pr s = Inl NotRegistered \<and>
         step (ConstructBuilding p x pr) s = (s, Some NotRegistered) \<and>
         getPlayerGold p s = Inl NotRegistered \<and>
         getPlayerLastBuilding p s = Inl NotRegistered \<and>
         getPlayerState p s = Inl NotRegistered \<and>
         isPlayerRegistered p s = False \<and>
         players s p = emptyPlayer"
proof -
  have "\<not> registered (players (deploy a) p)" by (simp add: deploy_def emptyPlayer_def)
  with assms have "players s p = emptyPlayer"
    by (simp add: run_never_joined) (simp add: deploy_def)
  then show ?thesis
    by (simp add: emptyPlayer_def constructBuilding_def transact_def getPlayerGold_def
        getPlayerLastBuilding_def getPlayerState_def isPlayerRegistered_def)
qed

theorem never_joined_gated_witness:
  "JoinGame alice \<notin> set [JoinGame bob, buildCall bob 1] \<and>
   step (buildCall alice 1) (run [JoinGame bob, buildCall bob 1] (deploy gameAddress))
     = (run [JoinGame bob, buildCall bob 1] (deploy gameAddress), Some NotRegistered) \<and>
   getPlayerState alice (run [JoinGame bob, buildCall bob 1] (deploy gameAddress))
     = Inl NotRegistered \<and>
   isPlayerRegistered alice (run [JoinGame bob, buildCall bob 1] (deploy gameAddress)) = False \<and>
   isPlayerRegistered bob (run [JoinGame bob, buildCall bob 1] (deploy gameAddress)) = True"
proof -
  let ?cs = "[JoinGame bob, buildCall bob 1]"
  have h: "JoinGame alice \<notin> set ?cs" by (simp add: fixture_defs)
  have b: "isPlayerRegistered bob (run ?cs (deploy gameAddress)) = True"
    by (simp add: eval_defs fixture_defs isPlayerRegistered_def)
  have c: "buildCall alice 1
      = ConstructBuilding alice (ExternalEuint32 0 1) (InputProof (ExternalEuint32 0 1) alice gameAddress)"
    by (simp add: buildCall_def createEncryptedInput_def)
  from never_joined_gated [of alice ?cs _ gameAddress "ExternalEuint32 0 1"
      "InputProof (ExternalEuint32 0 1) alice gameAddress", OF h refl] h b
  show ?thesis unfolding c by blast
qed

section \<open>Construction\<close>

text \<open>
  C1: for a registered player with decrypted gold \<open>g\<close>, a \<open>constructBuilding\<close> call with a
  validly encrypted building id \<open>k\<close> of the catalog whose cost \<open>c\<close> is at most \<open>g\<close> returns
  without error and leaves the player with decrypted gold \<open>g - c\<close> (as a number: the
  subtraction does not wrap) and decrypted \<open>lastBuilding\<close> \<open>k\<close>. The instance checked below is the test
  scenario: after \<open>joinGame\<close> the gold is 1000, and constructing id 2 gives gold 800 and
  \<open>lastBuilding\<close> 2.
\<close>

theorem constructBuilding_affordable:
  assumes "registered (players s p)"
    and "FHE_fromExternal x pr p (contractAddress s) = Inr buildingId"
    and "(decrypt32 buildingId, c) \<in> set catalog"
    and "c \<le> decrypt32 (gold (players s p))"
  shows "\<exists>s'. constructBuilding p x pr s = Inr s' \<and>
     decrypt32 (gold (players s' p)) = decrypt32 (gold (players s p)) - c \<and>
     unat (decrypt32 (gold (players s' p))) = unat (decrypt32 (gold (players s p))) - unat c \<and>
     decrypt32 (lastBuilding (players s' p)) = decrypt32 buildingId"
proof -
  from catalog_cost [OF assms(3)]
  have known: "decryptBool (snd (resolveBuildingCost buildingId))"
    and cost: "decrypt32 (fst (resolveBuildingCost buildingId)) = c"
    by (simp_all add: decrypt_resolve_known decrypt_resolve_cost)
  from constructBuilding_effect [OF assms(1,2)] obtain s' where
    r: "constructBuilding p x pr s = Inr s'"
    and g: "decrypt32 (gold (players s' p)) = decrypt32 (gold (players s p)) - c"
    and b: "decrypt32 (lastBuilding (players s' p)) = decrypt32 buildingId"
    using known cost assms(4) by auto
  have "unat (decrypt32 (gold (players s p)) - c) = unat (decrypt32 (gold (players s p))) - unat c"
    using assms(4) by (rule unat_sub)
  with r g b show ?thesis by simp
qed

theorem constructBuilding_affordable_witness:
  "registered (players (run [JoinGame alice] (deploy gameAddress)) alice) \<and>
   decrypt32 (gold (players (run [JoinGame alice] (deploy gameAddress)) alice)) = 1000 \<and>
   (\<exists>s'. constructBuilding alice (ExternalEuint32 0 2)
            (InputProof (ExternalEuint32 0 2) alice gameAddress)
            (run [JoinGame alice] (deploy gameAddress)) = Inr s' \<and>
         unat (decrypt32 (gold (players s' alice))) = 800 \<and>
         decrypt32 (lastBuilding (players s' alice)) = 2)"
proof -
  let ?s = "run [JoinGame alice] (deploy gameAddress)"
  let ?x = "ExternalEuint32 0 2"
  have r: "registered (players ?s alice)" by (simp add: eval_defs)
  have g: "decrypt32 (gold (players ?s alice)) = 1000" by (simp add: eval_defs)
  have v: "FHE_fromExternal ?x (InputProof ?x alice gameAddress) alice (contractAddress ?s)
             = Inr (VerifiedInput ?x)"
    by (simp add: eval_defs)
  have c: "(decrypt32 (VerifiedInput ?x), 200) \<in> set catalog" by (simp add: catalog_eq)
  have a: "200 \<le> decrypt32 (gold (players ?s alice))" unfolding g by simp
  from constructBuilding_affordable [OF r v c a] r g show ?thesis by auto
qed

text \<open>
  C2: for a registered player in state \<open>(g, b)\<close>, a \<open>constructBuilding\<close> call with a validly
  encrypted id that is outside \<open>{1, 2, 3, 4}\<close>, or that is an id of the catalog whose cost
  exceeds \<open>g\<close>, returns without error and leaves the decrypted gold \<open>g\<close> and the decrypted
  \<open>lastBuilding\<close> \<open>b\<close>.
\<close>

theorem constructBuilding_rejected:
  assumes "registered (players s p)"
    and "FHE_fromExternal x pr p (contractAddress s) = Inr buildingId"
    and "decrypt32 buildingId \<notin> {1, 2, 3, 4} \<or>
         (\<exists>c. (decrypt32 buildingId, c) \<in> set catalog \<and> decrypt32 (gold (players s p)) < c)"
  shows "\<exists>s'. constructBuilding p x pr s = Inr s' \<and>
     step (ConstructBuilding p x pr) s = (s', None) \<and>
     decrypt32 (gold (players s' p)) = decrypt32 (gold (players s p)) \<and>
     decrypt32 (lastBuilding (players s' p)) = decrypt32 (lastBuilding (players s p))"
proof -
  have no: "\<not> (decryptBool (snd (resolveBuildingCost buildingId)) \<and>
     decrypt32 (fst (resolveBuildingCost buildingId)) \<le> decrypt32 (gold (players s p)))"
    using assms(3)
  proof
    assume "decrypt32 buildingId \<notin> {1, 2, 3, 4}"
    then show ?thesis by (simp add: decrypt_resolve_known)
  next
    assume "\<exists>c. (decrypt32 buildingId, c) \<in> set catalog \<and> decrypt32 (gold (players s p)) < c"
    then obtain c where c: "(decrypt32 buildingId, c) \<in> set catalog"
      and lt: "decrypt32 (gold (players s p)) < c" by blast
    from catalog_cost [OF c] have "decrypt32 (fst (resolveBuildingCost buildingId)) = c"
      by (simp add: decrypt_resolve_cost)
    with lt show ?thesis by (simp add: not_le)
  qed
  from constructBuilding_effect [OF assms(1,2)] no obtain s' where
    "constructBuilding p x pr s = Inr s'"
    "decrypt32 (gold (players s' p)) = decrypt32 (gold (players s p))"
    "decrypt32 (lastBuilding (players s' p)) = decrypt32 (lastBuilding (players s p))"
    by auto
  then show ?thesis by (simp add: transact_def)
qed

theorem constructBuilding_rejected_witness:
  "(\<exists>s'. constructBuilding alice (ExternalEuint32 0 7)
            (InputProof (ExternalEuint32 0 7) alice gameAddress)
            (run [JoinGame alice] (deploy gameAddress)) = Inr s' \<and>
         decrypt32 (gold (players s' alice)) = 1000 \<and>
         decrypt32 (lastBuilding (players s' alice)) = 0) \<and>
   (\<exists>s'. constructBuilding alice (ExternalEuint32 0 3)
            (InputProof (ExternalEuint32 0 3) alice gameAddress)
            (run [JoinGame alice, buildCall alice 4, buildCall alice 4] (deploy gameAddress))
            = Inr s' \<and>
         decrypt32 (gold (players s' alice)) = 200 \<and>
         decrypt32 (lastBuilding (players s' alice)) = 4)"
proof
  let ?s = "run [JoinGame alice] (deploy gameAddress)"
  let ?x = "ExternalEuint32 0 7"
  have r: "registered (players ?s alice)" by (simp add: eval_defs)
  have v: "FHE_fromExternal ?x (InputProof ?x alice gameAddress) alice (contractAddress ?s)
             = Inr (VerifiedInput ?x)"
    by (simp add: eval_defs)
  have c: "decrypt32 (VerifiedInput ?x) \<notin> {1, 2, 3, 4} \<or>
      (\<exists>c. (decrypt32 (VerifiedInput ?x), c) \<in> set catalog \<and>
           decrypt32 (gold (players ?s alice)) < c)"
    by simp
  have g: "decrypt32 (gold (players ?s alice)) = 1000"
    and b: "decrypt32 (lastBuilding (players ?s alice)) = 0"
    by (simp_all add: eval_defs)
  from constructBuilding_rejected [OF r v c] g b
  show "\<exists>s'. constructBuilding alice ?x (InputProof ?x alice gameAddress) ?s = Inr s' \<and>
         decrypt32 (gold (players s' alice)) = 1000 \<and>
         decrypt32 (lastBuilding (players s' alice)) = 0"
    by auto
next
  let ?s = "run [JoinGame alice, buildCall alice 4, buildCall alice 4] (deploy gameAddress)"
  let ?x = "ExternalEuint32 0 3"
  have r: "registered (players ?s alice)" by (simp add: eval_defs fixture_defs)
  have v: "FHE_fromExternal ?x (InputProof ?x alice gameAddress) alice (contractAddress ?s)
             = Inr (VerifiedInput ?x)"
    by (simp add: eval_defs fixture_defs)
  have g: "decrypt32 (gold (players ?s alice)) = 200"
    and b: "decrypt32 (lastBuilding (players ?s alice)) = 4"
    by (simp_all add: eval_defs fixture_defs)
  have "(decrypt32 (VerifiedInput ?x), 300) \<in> set catalog \<and>
        decrypt32 (gold (players ?s alice)) < 300"
    unfolding g by (simp add: catalog_eq)
  then have c: "decrypt32 (VerifiedInput ?x) \<notin> {1, 2, 3, 4} \<or>
      (\<exists>c. (decrypt32 (VerifiedInput ?x), c) \<in> set catalog \<and>
           decrypt32 (gold (players ?s alice)) < c)"
    by blast
  from constructBuilding_rejected [OF r v c] g b
  show "\<exists>s'. constructBuilding alice ?x (InputProof ?x alice gameAddress) ?s = Inr s' \<and>
         decrypt32 (gold (players s' alice)) = 200 \<and>
         decrypt32 (lastBuilding (players s' alice)) = 4"
    by auto
qed

text \<open>
  C4: the affordability comparison is inclusive. For a registered player whose decrypted
  gold equals the cost of the requested catalog building, \<open>constructBuilding\<close> applies the
  purchase: the decrypted gold becomes 0 and \<open>lastBuilding\<close> the requested id.
\<close>

theorem constructBuilding_exact_boundary:
  assumes "registered (players s p)"
    and "FHE_fromExternal x pr p (contractAddress s) = Inr buildingId"
    and "(decrypt32 buildingId, c) \<in> set catalog"
    and "decrypt32 (gold (players s p)) = c"
  shows "\<exists>s'. constructBuilding p x pr s = Inr s' \<and>
     decrypt32 (gold (players s' p)) = 0 \<and>
     decrypt32 (lastBuilding (players s' p)) = decrypt32 buildingId"
proof -
  from catalog_cost [OF assms(3)]
  have "decryptBool (snd (resolveBuildingCost buildingId))"
    and "decrypt32 (fst (resolveBuildingCost buildingId)) = c"
    by (simp_all add: decrypt_resolve_known decrypt_resolve_cost)
  with constructBuilding_effect [OF assms(1,2)] assms(4) show ?thesis by auto
qed

theorem constructBuilding_exact_boundary_witness:
  "decrypt32 (gold (players
      (run [JoinGame alice, buildCall alice 4, buildCall alice 4, buildCall alice 1]
         (deploy gameAddress)) alice)) = 100 \<and>
   (\<exists>s'. constructBuilding alice (ExternalEuint32 0 1)
            (InputProof (ExternalEuint32 0 1) alice gameAddress)
            (run [JoinGame alice, buildCall alice 4, buildCall alice 4, buildCall alice 1]
               (deploy gameAddress)) = Inr s' \<and>
         decrypt32 (gold (players s' alice)) = 0 \<and>
         decrypt32 (lastBuilding (players s' alice)) = 1)"
proof -
  let ?s = "run [JoinGame alice, buildCall alice 4, buildCall alice 4, buildCall alice 1]
              (deploy gameAddress)"
  let ?x = "ExternalEuint32 0 1"
  have r: "registered (players ?s alice)" by (simp add: eval_defs fixture_defs)
  have v: "FHE_fromExternal ?x (InputProof ?x alice gameAddress) alice (contractAddress ?s)
             = Inr (VerifiedInput ?x)"
    by (simp add: eval_defs fixture_defs)
  have g: "decrypt32 (gold (players ?s alice)) = 100"
    by (simp add: eval_defs fixture_defs)
  have c: "(decrypt32 (VerifiedInput ?x), 100) \<in> set catalog" by (simp add: catalog_eq)
  from constructBuilding_exact_boundary [OF r v c g] g show ?thesis by simp
qed

text \<open>
  C10: in every \<open>constructBuilding\<close> call that returns, the new gold is
  \<open>FHE.sub(currentGold, appliedCost)\<close> where \<open>appliedCost\<close> decrypts to the selected cost when
  \<open>shouldApply\<close> decrypts to true and to 0 otherwise, \<open>shouldApply\<close> implies
  \<open>currentGold \<ge> buildingCost\<close>, and so \<open>appliedCost \<le> currentGold\<close>: the 32-bit subtraction
  equals the subtraction of the numbers and does not wrap.
\<close>

theorem constructBuilding_sub_no_wrap:
  assumes "constructBuilding p x pr s = Inr s'"
  shows "\<exists>buildingId buildingCost isKnownBuilding shouldApply appliedCost.
     FHE_fromExternal x pr p (contractAddress s) = Inr buildingId \<and>
     resolveBuildingCost buildingId = (buildingCost, isKnownBuilding) \<and>
     shouldApply = FHE_and isKnownBuilding (FHE_ge (gold (players s p)) buildingCost) \<and>
     appliedCost = FHE_select shouldApply buildingCost (FHE_asEuint32 0) \<and>
     gold (players s' p) = FHE_sub (gold (players s p)) appliedCost \<and>
     decrypt32 appliedCost = (if decryptBool shouldApply then decrypt32 buildingCost else 0) \<and>
     decryptBool shouldApply =
       (decryptBool isKnownBuilding \<and> decrypt32 buildingCost \<le> decrypt32 (gold (players s p))) \<and>
     decrypt32 appliedCost \<le> decrypt32 (gold (players s p)) \<and>
     int (unat (decrypt32 (gold (players s' p)))) =
       int (unat (decrypt32 (gold (players s p)))) - int (unat (decrypt32 appliedCost))"
proof -
  from assms constructBuilding_cases [of p x pr s] obtain bid where
    r: "registered (players s p)" and v: "FHE_fromExternal x pr p (contractAddress s) = Inr bid"
    by auto
  let ?cost = "fst (resolveBuildingCost bid)"
  let ?known = "snd (resolveBuildingCost bid)"
  let ?apply = "FHE_and ?known (FHE_ge (gold (players s p)) ?cost)"
  let ?applied = "FHE_select ?apply ?cost (FHE_asEuint32 0)"
  from constructBuilding_Inr [OF r v] assms
  have g: "gold (players s' p) = FHE_sub (gold (players s p)) ?applied"
    by (auto simp add: store_players)
  have le: "decrypt32 ?applied \<le> decrypt32 (gold (players s p))"
    by (simp add: FHE_defs)
  have d: "decrypt32 (gold (players s' p)) = decrypt32 (gold (players s p)) - decrypt32 ?applied"
    by (simp add: g FHE_sub_def)
  have "unat (decrypt32 (gold (players s' p))) =
      unat (decrypt32 (gold (players s p))) - unat (decrypt32 ?applied)"
    unfolding d using le by (rule unat_sub)
  moreover have "unat (decrypt32 ?applied) \<le> unat (decrypt32 (gold (players s p)))"
    using le by (simp add: word_le_nat_alt)
  ultimately have n: "int (unat (decrypt32 (gold (players s' p)))) =
      int (unat (decrypt32 (gold (players s p)))) - int (unat (decrypt32 ?applied))"
    by simp
  show ?thesis
    apply (rule exI [of _ bid], rule exI [of _ ?cost], rule exI [of _ ?known])
    apply (rule exI [of _ ?apply], rule exI [of _ ?applied])
    using v g le n by (simp add: FHE_defs)
qed

theorem constructBuilding_sub_no_wrap_witness:
  "\<exists>s' appliedCost.
     constructBuilding alice (ExternalEuint32 0 2)
       (InputProof (ExternalEuint32 0 2) alice gameAddress)
       (run [JoinGame alice] (deploy gameAddress)) = Inr s' \<and>
     gold (players s' alice)
       = FHE_sub (gold (players (run [JoinGame alice] (deploy gameAddress)) alice)) appliedCost \<and>
     decrypt32 appliedCost = 200 \<and>
     int (unat (decrypt32 (gold (players s' alice)))) = 1000 - 200"
proof -
  let ?s = "run [JoinGame alice] (deploy gameAddress)"
  let ?x = "ExternalEuint32 0 2"
  let ?pr = "InputProof ?x alice gameAddress"
  have r: "registered (players ?s alice)" by (simp add: eval_defs)
  have v: "FHE_fromExternal ?x ?pr alice (contractAddress ?s) = Inr (VerifiedInput ?x)"
    by (simp add: eval_defs)
  have g: "decrypt32 (gold (players ?s alice)) = 1000" by (simp add: eval_defs)
  from constructBuilding_Inr [OF r v] obtain s' where
    c: "constructBuilding alice ?x ?pr ?s = Inr s'" by simp
  from constructBuilding_sub_no_wrap [OF c]
  obtain buildingId buildingCost isKnownBuilding shouldApply appliedCost where
    fe: "FHE_fromExternal ?x ?pr alice (contractAddress ?s) = Inr buildingId"
    and res0: "resolveBuildingCost buildingId = (buildingCost, isKnownBuilding)"
    and sa: "shouldApply = FHE_and isKnownBuilding (FHE_ge (gold (players ?s alice)) buildingCost)"
    and ap0: "appliedCost = FHE_select shouldApply buildingCost (FHE_asEuint32 0)"
    and sub: "gold (players s' alice) = FHE_sub (gold (players ?s alice)) appliedCost"
    and n: "int (unat (decrypt32 (gold (players s' alice)))) =
       int (unat (decrypt32 (gold (players ?s alice)))) - int (unat (decrypt32 appliedCost))"
    by blast
  from fe v have "buildingId = VerifiedInput ?x" by (simp del: run.simps)
  with res0 have res: "resolveBuildingCost (VerifiedInput ?x) = (buildingCost, isKnownBuilding)"
    by simp
  from sa ap0 have ap: "appliedCost = FHE_select (FHE_and isKnownBuilding
          (FHE_ge (gold (players ?s alice)) buildingCost)) buildingCost (FHE_asEuint32 0)"
    by simp
  from res have "decrypt32 buildingCost = 200" "decryptBool isKnownBuilding"
    using decrypt_resolve_cost [of "VerifiedInput ?x"]
      decrypt_resolve_known [of "VerifiedInput ?x"] by simp_all
  with ap have d: "decrypt32 appliedCost = 200" unfolding FHE_defs using g by simp
  from n have "int (unat (decrypt32 (gold (players s' alice)))) = 1000 - 200"
    unfolding d g by simp
  with c sub d show ?thesis by blast
qed

section \<open>Sequences of calls\<close>

text \<open>
  C3: gold never increases under construction. Take any state, any player \<open>p\<close>, any
  sequence \<open>cs\<close> of calls (of either function, by any callers, failed calls included) and any
  further call \<open>c\<close>, such that \<open>p\<close> is registered at the start or no call is \<open>p\<close>'s own
  \<open>joinGame\<close> (the creation of \<open>p\<close>'s record). Then \<open>p\<close>'s decrypted gold after \<open>c\<close> is at
  most what it was before \<open>c\<close>, and after the whole of \<open>cs\<close> at most what it was at the start.
\<close>

theorem gold_monotone:
  assumes "registered (players s p) \<or> JoinGame p \<notin> set (cs @ [c])"
  shows "unat (decrypt32 (gold (players (fst (step c (run cs s))) p)))
           \<le> unat (decrypt32 (gold (players (run cs s) p))) \<and>
         unat (decrypt32 (gold (players (run cs s) p))) \<le> unat (decrypt32 (gold (players s p)))"
proof -
  from assms have "registered (players (run cs s) p) \<or> c \<noteq> JoinGame p"
    using run_registered [of s p cs] by auto
  then have "decrypt32 (gold (players (fst (step c (run cs s))) p))
      \<le> decrypt32 (gold (players (run cs s) p))"
    by (rule step_gold_le)
  moreover from assms have "registered (players s p) \<or> JoinGame p \<notin> set cs" by auto
  then have "decrypt32 (gold (players (run cs s) p)) \<le> decrypt32 (gold (players s p))"
    by (rule run_gold_le)
  ultimately show ?thesis by (simp add: word_le_nat_alt)
qed

theorem gold_monotone_witness:
  "registered (players (run [JoinGame alice] (deploy gameAddress)) alice) \<and>
   unat (decrypt32 (gold (players
      (fst (step (buildCall alice 4)
         (run [buildCall alice 2, JoinGame bob, buildCall alice 7]
            (run [JoinGame alice] (deploy gameAddress))))) alice)))
     \<le> unat (decrypt32 (gold (players
      (run [buildCall alice 2, JoinGame bob, buildCall alice 7]
         (run [JoinGame alice] (deploy gameAddress))) alice))) \<and>
   unat (decrypt32 (gold (players
      (run [buildCall alice 2, JoinGame bob, buildCall alice 7]
         (run [JoinGame alice] (deploy gameAddress))) alice)))
     \<le> unat (decrypt32 (gold (players (run [JoinGame alice] (deploy gameAddress)) alice))) \<and>
   unat (decrypt32 (gold (players
      (run [buildCall alice 2, JoinGame bob, buildCall alice 7]
         (run [JoinGame alice] (deploy gameAddress))) alice))) = 800"
proof -
  let ?s = "run [JoinGame alice] (deploy gameAddress)"
  let ?cs = "[buildCall alice 2, JoinGame bob, buildCall alice 7]"
  have r: "registered (players ?s alice)" by (simp add: eval_defs)
  then have h: "registered (players ?s alice) \<or>
      JoinGame alice \<notin> set (?cs @ [buildCall alice 4])" ..
  have v: "unat (decrypt32 (gold (players (run ?cs ?s) alice))) = 800"
    by (simp add: eval_defs fixture_defs)
  from gold_monotone [OF h] r v show ?thesis by blast
qed

section \<open>Decryption rights\<close>

text \<open>
  What one call grants: a successful \<open>joinGame\<close> or \<open>constructBuilding\<close> by \<open>p\<close> adds to the
  access-control list exactly the rights of the contract itself and of \<open>p\<close> on the two
  ciphertexts it has just written to \<open>p\<close>'s record (gold and \<open>lastBuilding\<close>), in the same
  call as the write, and writes no other player's record. Rights already held on those
  ciphertexts stay.
\<close>

lemma call_grants_exactly:
  assumes "joinGame p s = Inr s' \<or> constructBuilding p x pr s = Inr s'"
  shows "acl s' = acl s \<union>
           {(gold (players s' p), contractAddress s'), (gold (players s' p), p),
            (lastBuilding (players s' p), contractAddress s'), (lastBuilding (players s' p), p)} \<and>
         (\<forall>q. q \<noteq> p \<longrightarrow> players s' q = players s q)"
  using assms
proof
  assume j: "joinGame p s = Inr s'"
  then have "\<not> registered (players s p)" by (rule joinGame_InrD)
  from joinGame_Inr [OF this] j show ?thesis
    by (auto simp add: store_players store_acl store_contractAddress)
next
  assume c: "constructBuilding p x pr s = Inr s'"
  with constructBuilding_cases [of p x pr s] obtain bid where
    "registered (players s p)" "FHE_fromExternal x pr p (contractAddress s) = Inr bid"
    by auto
  from constructBuilding_Inr [OF this] c show ?thesis
    by (auto simp add: store_players store_acl store_contractAddress)
qed

lemma call_grants_exactly_instance:
  "(\<exists>s'. joinGame alice (deploy gameAddress) = Inr s' \<and>
      acl s' = {(FHE_asEuint32 1000, gameAddress), (FHE_asEuint32 1000, alice),
                (FHE_asEuint32 0, gameAddress), (FHE_asEuint32 0, alice)}) \<and>
   (\<exists>s'. constructBuilding bob (ExternalEuint32 0 7)
            (InputProof (ExternalEuint32 0 7) bob gameAddress)
            (run [JoinGame alice, JoinGame bob] (deploy gameAddress)) = Inr s' \<and>
      acl s' - acl (run [JoinGame alice, JoinGame bob] (deploy gameAddress))
        = {(gold (players s' bob), gameAddress), (gold (players s' bob), bob),
           (lastBuilding (players s' bob), gameAddress), (lastBuilding (players s' bob), bob)} \<and>
      players s' alice = players (run [JoinGame alice, JoinGame bob] (deploy gameAddress)) alice)"
proof
  obtain s' where j: "joinGame alice (deploy gameAddress) = Inr s'"
    by (simp add: joinGame_def deploy_def emptyPlayer_def Let_def)
  then have p: "players s' alice
      = \<lparr>gold = FHE_asEuint32 1000, lastBuilding = FHE_asEuint32 0, registered = True\<rparr>"
    and a: "contractAddress s' = gameAddress" and e: "acl (deploy gameAddress) = {}"
    by (auto simp add: eval_defs)
  from j have "joinGame alice (deploy gameAddress) = Inr s'
      \<or> constructBuilding alice (ExternalEuint32 0 0)
           (InputProof (ExternalEuint32 0 0) alice gameAddress) (deploy gameAddress) = Inr s'" ..
  from call_grants_exactly [OF this] j p a e
  show "\<exists>s'. joinGame alice (deploy gameAddress) = Inr s' \<and>
      acl s' = {(FHE_asEuint32 1000, gameAddress), (FHE_asEuint32 1000, alice),
                (FHE_asEuint32 0, gameAddress), (FHE_asEuint32 0, alice)}"
    by auto
next
  let ?s = "run [JoinGame alice, JoinGame bob] (deploy gameAddress)"
  let ?x = "ExternalEuint32 0 7"
  let ?pr = "InputProof ?x bob gameAddress"
  have r: "registered (players ?s bob)" by (simp add: eval_defs fixture_defs)
  have v: "FHE_fromExternal ?x ?pr bob (contractAddress ?s) = Inr (VerifiedInput ?x)"
    by (simp add: eval_defs)
  from constructBuilding_Inr [OF r v] obtain s' where
    c: "constructBuilding bob ?x ?pr ?s = Inr s'" by simp
  then have a: "contractAddress s' = gameAddress"
    and ne: "alice \<noteq> bob"
    and fresh: "(gold (players s' bob), gameAddress) \<notin> acl ?s"
      "(gold (players s' bob), bob) \<notin> acl ?s"
      "(lastBuilding (players s' bob), gameAddress) \<notin> acl ?s"
      "(lastBuilding (players s' bob), bob) \<notin> acl ?s"
    by (auto simp add: eval_defs fixture_defs)
  from c have "joinGame bob ?s = Inr s' \<or> constructBuilding bob ?x ?pr ?s = Inr s'" ..
  from call_grants_exactly [OF this] c a ne fresh
  show "\<exists>s'. constructBuilding bob ?x ?pr ?s = Inr s' \<and>
      acl s' - acl ?s
        = {(gold (players s' bob), gameAddress), (gold (players s' bob), bob),
           (lastBuilding (players s' bob), gameAddress), (lastBuilding (players s' bob), bob)} \<and>
      players s' alice = players ?s alice"
    by auto
qed



end
